theory Spec2Isabelle
  imports Complex_Main
begin

section \<open>Python values used by the backend\<close>

text \<open>
  A Python \<open>float\<close> is an IEEE double: a finite value, one of the two infinities, or NaN.
  The finite values are taken as the real numbers they denote. The comparisons are the
  IEEE ones: every comparison with NaN is false. The literal bounds of the source
  (\<open>0.1\<close>, \<open>1.0\<close>, \<open>20.0\<close>) are taken as the decimal numbers written there; the double
  nearest to \<open>0.1\<close> lies above \<open>0.1\<close> and no double lies between the two, so on doubles
  the comparison with the literal and the comparison with the decimal number agree.
\<close>

datatype pyfloat = Finite real | PosInf | NegInf | NaN

fun fle :: "pyfloat \<Rightarrow> pyfloat \<Rightarrow> bool" where
  "fle NaN _ = False"
| "fle _ NaN = False"
| "fle NegInf _ = True"
| "fle _ PosInf = True"
| "fle (Finite a) (Finite b) = (a \<le> b)"
| "fle (Finite _) NegInf = False"
| "fle PosInf (Finite _) = False"
| "fle PosInf NegInf = False"


text \<open>
  An exception is its class name and its message; \<open>str(e)\<close> is the message. All the
  exceptions of the model are instances of \<open>Exception\<close>, the class that every handler
  of the source catches; the signals that derive from \<open>BaseException\<close> only
  (interpreter exit, keyboard interrupt) are not modelled.
\<close>

datatype exn = PyExc string string

fun str_exn :: "exn \<Rightarrow> string" where
  "str_exn (PyExc cls msg) = msg"

text \<open>Decimal rendering of integers, as the f-strings of the source produce it.\<close>

definition digit_char :: "nat \<Rightarrow> char" where
  "digit_char d = char_of (48 + d)"

function str_nat :: "nat \<Rightarrow> string" where
  "str_nat n = (if n < 10 then [digit_char n] else str_nat (n div 10) @ [digit_char (n mod 10)])"
  by pat_completeness auto
termination
  by (relation "measure (\<lambda>n. n)") auto

definition str_int :: "int \<Rightarrow> string" where
  "str_int i = (if i < 0 then CHR ''-'' # str_nat (nat (- i)) else str_nat (nat i))"

text \<open>
  Strings are lists of characters. \<open>str.lower\<close> and \<open>str.strip\<close> are modelled on
  ASCII text: the letters A to Z are lowered, and the white space is the ASCII white
  space of \<open>str.isspace\<close> (codes 9 to 13, 28 to 32).
\<close>

definition lower_char :: "char \<Rightarrow> char" where
  "lower_char c =
     (let k = (of_char c :: nat) in if 65 \<le> k \<and> k \<le> 90 then char_of (k + 32) else c)"

definition lower :: "string \<Rightarrow> string" where
  "lower s = map lower_char s"

definition is_space :: "char \<Rightarrow> bool" where
  "is_space c = (let k = (of_char c :: nat) in (9 \<le> k \<and> k \<le> 13) \<or> (28 \<le> k \<and> k \<le> 32))"

definition strip :: "string \<Rightarrow> string" where
  "strip s = rev (dropWhile is_space (rev (dropWhile is_space s)))"

fun starts_with :: "string \<Rightarrow> string \<Rightarrow> bool" where
  "starts_with [] s = True"
| "starts_with (w # ws) [] = False"
| "starts_with (w # ws) (c # cs) = (w = c \<and> starts_with ws cs)"

text \<open>\<open>contains w s\<close> is Python's \<open>w in s\<close> on strings.\<close>

fun contains :: "string \<Rightarrow> string \<Rightarrow> bool" where
  "contains w [] = (w = [])"
| "contains w (c # cs) = (starts_with w (c # cs) \<or> contains w cs)"

section \<open>utils/validators.py\<close>

subsection \<open>allowed_file\<close>




subsection \<open>validate_image\<close>

text \<open>
  The uploaded file is an object of the web framework and the decoder is the imaging
  library; neither is code of the repository. They are parameters of the model: a file
  state of type \<open>'f\<close>, an opened image of type \<open>'i\<close>, and the operations the validator
  calls on them, each of which may raise. \<open>fo_seek f offset whence\<close> is
  \<open>file.seek(offset, whence)\<close>, \<open>fo_tell\<close> is \<open>file.tell()\<close>, \<open>fo_open\<close> is
  \<open>Image.open(file)\<close>, \<open>fo_verify\<close> is \<open>image.verify()\<close> and \<open>fo_size\<close> is
  \<open>image.size\<close>, as (width, height).
\<close>

record ('f, 'i) file_ops =
  fo_seek :: "'f \<Rightarrow> int \<Rightarrow> int \<Rightarrow> exn + 'f"
  fo_tell :: "'f \<Rightarrow> exn + int"
  fo_open :: "'f \<Rightarrow> exn + ('i \<times> 'f)"
  fo_verify :: "'i \<Rightarrow> 'f \<Rightarrow> exn + 'f"
  fo_size :: "'i \<Rightarrow> int \<times> int"

text \<open>
  The process environment: \<open>getenv\<close> is \<open>os.getenv\<close> without a default, and
  \<open>int_of_str\<close> is Python's \<open>int\<close> on a string, which raises \<open>ValueError\<close> on text
  that is not a number.
\<close>

record os_env =
  getenv :: "string \<Rightarrow> string option"
  int_of_str :: "string \<Rightarrow> exn + int"

text \<open>\<open>int(os.getenv(name, default))\<close> with an integer default.\<close>

definition env_int :: "os_env \<Rightarrow> string \<Rightarrow> int \<Rightarrow> exn + int" where
  "env_int os name dflt =
     (case getenv os name of None \<Rightarrow> Inr dflt | Some s \<Rightarrow> int_of_str os s)"

text \<open>
  The dimension checks of lines 41 to 59, after the second \<open>Image.open\<close>. The ratio
  \<open>max(width, height) / min(width, height) > 4.0\<close> is taken on both sides at least 64, so
  the division is defined and the quotient exceeds 4 exactly when the larger side exceeds
  four times the smaller one.
\<close>

definition check_dimensions ::
  "('f, 'i) file_ops \<Rightarrow> os_env \<Rightarrow> 'i \<Rightarrow> 'f \<Rightarrow> exn + (bool \<times> string)" where
  "check_dimensions fo os img f =
     (let (width, height) = fo_size fo img; min_size = 64 in
      if width < min_size \<or> height < min_size then
        Inr (False, ''Image too small. Minimum size is '' @ str_int min_size @ ''x''
                     @ str_int min_size @ ''px'')
      else
        (case env_int os ''MAX_IMAGE_SIZE'' 2048 of
           Inl e \<Rightarrow> Inl e
         | Inr max_image_size \<Rightarrow>
             if width > max_image_size \<or> height > max_image_size then
               Inr (False, ''Image too large. Maximum size is '' @ str_int max_image_size
                            @ ''x'' @ str_int max_image_size @ ''px'')
             else if max width height > 4 * min width height then
               Inr (False, ''Image aspect ratio too extreme. Maximum ratio is 4:1'')
             else
               (case fo_seek fo f 0 0 of
                  Inl e \<Rightarrow> Inl e
                | Inr f' \<Rightarrow> Inr (True, ''Valid image''))))"

text \<open>The body of the inner \<open>try\<close> (lines 35 to 59).\<close>

definition open_and_check ::
  "('f, 'i) file_ops \<Rightarrow> os_env \<Rightarrow> 'f \<Rightarrow> exn + (bool \<times> string)" where
  "open_and_check fo os f =
     (case fo_open fo f of
        Inl e \<Rightarrow> Inl e
      | Inr (img, f1) \<Rightarrow>
          (case fo_verify fo img f1 of
             Inl e \<Rightarrow> Inl e
           | Inr f2 \<Rightarrow>
               (case fo_seek fo f2 0 0 of
                  Inl e \<Rightarrow> Inl e
                | Inr f3 \<Rightarrow>
                    (case fo_open fo f3 of
                       Inl e \<Rightarrow> Inl e
                     | Inr (img2, f4) \<Rightarrow> check_dimensions fo os img2 f4))))"

text \<open>
  The body of the outer \<open>try\<close> (lines 22 to 63): the size checks, then the inner
  \<open>try\<close> with its handler, which turns every exception of the decoding into the
  message of line 63.
\<close>

definition check_size_and_content ::
  "('f, 'i) file_ops \<Rightarrow> os_env \<Rightarrow> 'f \<Rightarrow> exn + (bool \<times> string)" where
  "check_size_and_content fo os f =
     (case fo_seek fo f 0 2 of
        Inl e \<Rightarrow> Inl e
      | Inr f1 \<Rightarrow>
          (case fo_tell fo f1 of
             Inl e \<Rightarrow> Inl e
           | Inr file_size \<Rightarrow>
               (case fo_seek fo f1 0 0 of
                  Inl e \<Rightarrow> Inl e
                | Inr f2 \<Rightarrow>
                    (case env_int os ''MAX_CONTENT_LENGTH'' (16 * 1024 * 1024) of
                       Inl e \<Rightarrow> Inl e
                     | Inr max_size \<Rightarrow>
                         if file_size > max_size then
                           Inr (False, ''File size too large. Maximum size is ''
                                        @ str_int (max_size div (1024 * 1024)) @ ''MB'')
                         else if file_size = 0 then Inr (False, ''File is empty'')
                         else
                           (case open_and_check fo os f2 of
                              Inl e \<Rightarrow> Inr (False, ''Invalid image file or corrupted data'')
                            | Inr r \<Rightarrow> Inr r)))))"

text \<open>
  \<open>validate_image\<close>: the outer handler (lines 65 to 67). The result is a sum so that
  an exception leaving the function would be a value \<open>Inl\<close>.
\<close>

definition validate_image ::
  "('f, 'i) file_ops \<Rightarrow> os_env \<Rightarrow> 'f \<Rightarrow> exn + (bool \<times> string)" where
  "validate_image fo os f =
     (case check_size_and_content fo os f of
        Inl e \<Rightarrow> Inr (False, ''File validation failed'')
      | Inr r \<Rightarrow> Inr r)"

subsection \<open>validate_prompt\<close>

definition banned_words :: "string list" where
  "banned_words =
     [''nude'', ''naked'', ''nsfw'', ''porn'', ''explicit'', ''sexual'',
      ''violence'', ''gore'', ''blood'', ''death'', ''kill'', ''murder'',
      ''hate'', ''racist'', ''nazi'', ''terrorist'']"

definition validate_prompt :: "string \<Rightarrow> nat \<Rightarrow> bool \<times> string" where
  "validate_prompt prompt max_length =
     (if prompt = [] \<or> strip prompt = [] then (False, ''Prompt cannot be empty'')
      else
        let prompt' = strip prompt in
        if length prompt' > max_length then
          (False, ''Prompt too long. Maximum length is '' @ str_nat max_length @ '' characters'')
        else
          (case find (\<lambda>word. contains word (lower prompt')) banned_words of
             Some word \<Rightarrow>
               (False, ''Prompt contains inappropriate content: '' @ [CHR 0x27] @ word @ [CHR 0x27])
           | None \<Rightarrow> (True, ''Valid prompt'')))"


subsection \<open>validate_generation_parameters\<close>

text \<open>
  The four checks in the order of the source; the first failing check decides the
  message. \<open>seed\<close> is \<open>Optional[int]\<close>, so \<open>isinstance(seed, int)\<close> holds whenever a
  seed is given. \<open>2**32 - 1\<close> is 4294967295.
\<close>

definition validate_generation_parameters ::
  "pyfloat \<Rightarrow> pyfloat \<Rightarrow> int \<Rightarrow> int option \<Rightarrow> bool \<times> string" where
  "validate_generation_parameters strength guidance_scale num_inference_steps seed =
     (if \<not> (fle (Finite 0.1) strength \<and> fle strength (Finite 1.0)) then
        (False, ''Strength must be between 0.1 and 1.0'')
      else if \<not> (fle (Finite 1.0) guidance_scale \<and> fle guidance_scale (Finite 20.0)) then
        (False, ''Guidance scale must be between 1.0 and 20.0'')
      else if \<not> (10 \<le> num_inference_steps \<and> num_inference_steps \<le> 100) then
        (False, ''Number of inference steps must be between 10 and 100'')
      else
        (case seed of
           None \<Rightarrow> (True, ''Valid parameters'')
         | Some s \<Rightarrow>
             if s < 0 \<or> s > 2 ^ 32 - 1 then
               (False, ''Seed must be a positive integer less than 2^32'')
             else (True, ''Valid parameters'')))"

text \<open>The ranges as the specification words them: a closed interval of finite numbers.\<close>

fun in_closed_range :: "real \<Rightarrow> real \<Rightarrow> pyfloat \<Rightarrow> bool" where
  "in_closed_range lo hi (Finite r) = (lo \<le> r \<and> r \<le> hi)"
| "in_closed_range lo hi PosInf = False"
| "in_closed_range lo hi NegInf = False"
| "in_closed_range lo hi NaN = False"

fun seed_absent_or_below_2_32 :: "int option \<Rightarrow> bool" where
  "seed_absent_or_below_2_32 None = True"
| "seed_absent_or_below_2_32 (Some s) = (0 \<le> s \<and> s < 2 ^ 32)"

definition parameters_in_spec_ranges :: "pyfloat \<Rightarrow> pyfloat \<Rightarrow> int \<Rightarrow> int option \<Rightarrow> bool" where
  "parameters_in_spec_ranges strength guidance_scale num_inference_steps seed =
     (in_closed_range 0.1 1.0 strength \<and> in_closed_range 1.0 20.0 guidance_scale \<and>
      10 \<le> num_inference_steps \<and> num_inference_steps \<le> 100 \<and>
      seed_absent_or_below_2_32 seed)"

section \<open>models: the persisted entities\<close>

text \<open>
  Identifiers are UUID strings, times are readings of the clock in microseconds, and a
  duration (\<open>total_seconds()\<close>) is kept as the difference of two readings. A nullable
  column is an option. The attributes of \<open>User\<close> that no operation below reads or
  writes (credentials, profile) are left out.
\<close>

datatype status = Pending | Processing | Completed | Failed

record user =
  u_id :: string
  u_total_transformations :: int

record transformation =
  t_id :: string
  t_user_id :: string
  t_task_id :: string
  t_status :: status
  t_original_filename :: string
  t_original_url :: string
  t_original_size :: int
  t_model_name :: string
  t_prompt :: string
  t_negative_prompt :: string
  t_strength :: pyfloat
  t_guidance_scale :: pyfloat
  t_num_inference_steps :: int
  t_seed :: "int option"
  t_result_filename :: "string option"
  t_result_url :: "string option"
  t_result_size :: "int option"
  t_processing_time :: "int option"
  t_gpu_memory_used :: "int option"
  t_error_message :: "string option"
  t_created_at :: int
  t_started_at :: "int option"
  t_completed_at :: "int option"

record gallery_item =
  g_id :: string
  g_user_id :: string
  g_transformation_id :: string
  g_title :: string
  g_description :: string
  g_tags :: string
  g_is_public :: bool
  g_is_featured :: bool
  g_share_token :: "string option"
  g_view_count :: int
  g_like_count :: int
  g_download_count :: int
  g_created_at :: int
  g_updated_at :: int

text \<open>
  The relational store is the three tables, each in the order of its rows. A database
  is the committed store together with the sequence of all the stores that a commit has
  made visible, oldest first. The sequence is not a variable of the program: it records
  what a reader of the database can have observed, so that a claim about every observed
  state can be stated.
\<close>

record store =
  users :: "user list"
  transformations :: "transformation list"
  gallery_items :: "gallery_item list"

record db =
  committed :: store
  observed :: "store list"

text \<open>
  A request works on a session that starts as the committed store; the objects it
  changes are changed in the session; \<open>db.session.commit()\<close> makes the session the
  committed store, and \<open>db.session.rollback()\<close> drops it.
\<close>

definition commit :: "store \<Rightarrow> db \<Rightarrow> db" where
  "commit session d = \<lparr>committed = session, observed = observed d @ [session]\<rparr>"

text \<open>
  \<open>query.filter_by(...).first()\<close> is the first row that matches; an assignment to an
  attribute of the object it returned changes that row.
\<close>

fun update_first :: "('a \<Rightarrow> bool) \<Rightarrow> ('a \<Rightarrow> 'a) \<Rightarrow> 'a list \<Rightarrow> 'a list" where
  "update_first P f [] = []"
| "update_first P f (x # xs) = (if P x then f x # xs else x # update_first P f xs)"

text \<open>A response is the HTTP status code and the text under \<open>error\<close> or \<open>message\<close>.\<close>

type_synonym response = "nat \<times> string"

section \<open>tasks/image_processing.py\<close>

text \<open>
  An image is its size and its colour mode; the pixels play no part below.
\<close>

record pil_image =
  im_width :: nat
  im_height :: nat
  im_mode :: string

text \<open>The payload of a \<open>transformation_progress\<close> event, without its timestamp.\<close>

record notification =
  n_task_id :: string
  n_status :: string
  n_message :: string
  n_progress :: int

text \<open>The arguments of the task.\<close>

record task_args =
  ta_task_id :: string
  ta_user_id :: string
  ta_filename :: string
  ta_model_name :: string
  ta_prompt :: string
  ta_negative_prompt :: string
  ta_strength :: pyfloat
  ta_guidance_scale :: pyfloat
  ta_num_inference_steps :: int
  ta_seed :: "int option"

text \<open>
  What the collaborators of the task do during one execution, call by call, with the
  line of the call. An \<open>exn option\<close> is the exception that the call raises, if any.
  The generation adapter is represented by what its two entry points return:
  \<open>load_model\<close> returns a boolean and \<open>generate_image\<close> an optional image (both are
  modelled in full further down). \<open>get_memory_usage\<close> gives the allocated accelerator
  memory (0 without an accelerator) or raises.
\<close>

record task_env =
  te_query_begin :: "exn option"                     \<comment> \<open>line 32\<close>
  te_now_started :: int                              \<comment> \<open>line 38\<close>
  te_commit_begin :: "exn option"                    \<comment> \<open>line 39\<close>
  te_socket :: "notification \<Rightarrow> exn option"          \<comment> \<open>lines 172 to 180\<close>
  te_load_model :: bool                              \<comment> \<open>line 59\<close>
  te_image_open :: "exn option"                      \<comment> \<open>line 65\<close>
  te_memory_before :: "exn + int"                    \<comment> \<open>line 68\<close>
  te_generate :: "pil_image option"                  \<comment> \<open>line 73\<close>
  te_result_uuid :: string                           \<comment> \<open>line 90\<close>
  te_upload :: "exn + string"                        \<comment> \<open>line 93\<close>
  te_now_uploaded :: int                             \<comment> \<open>line 96\<close>
  te_memory_after :: "exn + int"                     \<comment> \<open>line 97\<close>
  te_now_completed :: int                            \<comment> \<open>line 102\<close>
  te_result_size :: int                              \<comment> \<open>line 105\<close>
  te_query_user :: "exn option"                      \<comment> \<open>line 110\<close>
  te_commit_result :: "exn option"                   \<comment> \<open>line 114\<close>
  te_query_failed :: "exn option"                    \<comment> \<open>line 138\<close>
  te_now_failed :: int                               \<comment> \<open>line 141\<close>
  te_now_failed_time :: int                          \<comment> \<open>line 146\<close>
  te_commit_failed :: "exn option"                   \<comment> \<open>line 149\<close>

text \<open>
  The state of one execution: the database, the session of the worker, and the
  notifications that the socket has accepted, in the order of their emission.
\<close>

record task_state =
  ts_db :: db
  ts_session :: store
  ts_emitted :: "notification list"

text \<open>The dictionary that the task returns.\<close>

datatype task_result =
  ResultCompleted string int string
| ResultFailed string

definition commit_session :: "task_state \<Rightarrow> task_state" where
  "commit_session st = st\<lparr>ts_db := commit (ts_session st) (ts_db st)\<rparr>"

definition change_transformation ::
  "string \<Rightarrow> (transformation \<Rightarrow> transformation) \<Rightarrow> task_state \<Rightarrow> task_state" where
  "change_transformation task_id f st =
     st\<lparr>ts_session := (ts_session st)
          \<lparr>transformations :=
             update_first (\<lambda>t. t_task_id t = task_id) f (transformations (ts_session st))\<rparr>\<rparr>"

subsection \<open>emit_progress_update\<close>

text \<open>
  The import of the socket and the emission are inside a \<open>try\<close> whose handler logs a
  warning: when they raise, nothing is emitted and the caller goes on.
\<close>

definition emit_progress_update ::
  "task_env \<Rightarrow> string \<Rightarrow> string \<Rightarrow> string \<Rightarrow> int \<Rightarrow> task_state \<Rightarrow> task_state" where
  "emit_progress_update env task_id status_text message progress st =
     (let n = \<lparr>n_task_id = task_id, n_status = status_text, n_message = message,
               n_progress = progress\<rparr>
      in case te_socket env n of
           None \<Rightarrow> st\<lparr>ts_emitted := ts_emitted st @ [n]\<rparr>
         | Some e \<Rightarrow> st)"

subsection \<open>process_image_task\<close>

text \<open>
  The body of the \<open>try\<close> in three parts. Each returns the state at the point where it
  stops, with the exception raised there (\<open>Inl\<close>) or the dictionary returned
  (\<open>Inr\<close>).

  Lines 87 to 128: store the result and complete the record. \<open>t\<close> is the object
  that line 32 found and \<open>memory_before\<close> the reading of line 68. The start time read
  on line 96 is the one assigned on line 38.
\<close>

definition completed_with ::
  "task_env \<Rightarrow> string \<Rightarrow> string \<Rightarrow> int \<Rightarrow> int \<Rightarrow> transformation \<Rightarrow> transformation" where
  "completed_with env result_filename result_url processing_time gpu_memory_used t =
     t\<lparr>t_status := Completed,
       t_completed_at := Some (te_now_completed env),
       t_result_filename := Some result_filename,
       t_result_url := Some result_url,
       t_result_size := Some (te_result_size env),
       t_processing_time := Some processing_time,
       t_gpu_memory_used := Some gpu_memory_used\<rparr>"

definition count_transformation :: "string \<Rightarrow> task_state \<Rightarrow> task_state" where
  "count_transformation user_id st =
     st\<lparr>ts_session := (ts_session st)
          \<lparr>users :=
             update_first (\<lambda>u. u_id u = user_id)
               (\<lambda>u. u\<lparr>u_total_transformations := u_total_transformations u + 1\<rparr>)
               (users (ts_session st))\<rparr>\<rparr>"

definition save_result ::
  "task_env \<Rightarrow> task_args \<Rightarrow> transformation \<Rightarrow> int \<Rightarrow> task_state
   \<Rightarrow> (exn + task_result) \<times> task_state" where
  "save_result env args t memory_before st =
     (let st1 = emit_progress_update env (ta_task_id args) ''processing'' ''Saving result...'' 80 st;
          result_filename = ''result_'' @ te_result_uuid env @ ''.jpg''
      in
      case te_upload env of
        Inl e \<Rightarrow> (Inl e, st1)
      | Inr result_url \<Rightarrow>
          let processing_time = te_now_uploaded env - te_now_started env in
          (case te_memory_after env of
             Inl e \<Rightarrow> (Inl e, st1)
           | Inr memory_after \<Rightarrow>
               let gpu_memory_used = memory_after - memory_before;
                   st2 = change_transformation (ta_task_id args)
                           (completed_with env result_filename result_url processing_time
                              gpu_memory_used) st1
               in
               (case te_query_user env of
                  Some e \<Rightarrow> (Inl e, st2)
                | None \<Rightarrow>
                    let st3 = count_transformation (ta_user_id args) st2 in
                    (case te_commit_result env of
                       Some e \<Rightarrow> (Inl e, st3)
                     | None \<Rightarrow>
                         let st4 = commit_session st3;
                             st5 = emit_progress_update env (ta_task_id args) ''completed''
                                     ''Transformation completed successfully!'' 100 st4
                         in (Inr (ResultCompleted result_url processing_time (t_id t)), st5)))))"

text \<open>Lines 56 to 85: load the model, decode the input, generate.\<close>

definition generate_result ::
  "task_env \<Rightarrow> task_args \<Rightarrow> transformation \<Rightarrow> task_state
   \<Rightarrow> (exn + task_result) \<times> task_state" where
  "generate_result env args t st =
     (let st1 = emit_progress_update env (ta_task_id args) ''processing''
                  ''Loading AI model...'' 20 st
      in
      if \<not> te_load_model env then
        (Inl (PyExc ''RuntimeError'' (''Failed to load model: '' @ ta_model_name args)), st1)
      else
        let st2 = emit_progress_update env (ta_task_id args) ''processing''
                    ''Preprocessing image...'' 30 st1
        in
        (case te_image_open env of
           Some e \<Rightarrow> (Inl e, st2)
         | None \<Rightarrow>
             (case te_memory_before env of
                Inl e \<Rightarrow> (Inl e, st2)
              | Inr memory_before \<Rightarrow>
                  let st3 = emit_progress_update env (ta_task_id args) ''processing''
                              ''Generating transformed image...'' 40 st2
                  in
                  (case te_generate env of
                     None \<Rightarrow> (Inl (PyExc ''RuntimeError'' ''Image generation failed''), st3)
                   | Some result_image \<Rightarrow> save_result env args t memory_before st3))))"

text \<open>
  Lines 32 to 54: find the record, mark it as processing, validate. \<open>validate_prompt\<close>
  is called with its default maximum length of 1000.
\<close>

definition started :: "task_env \<Rightarrow> transformation \<Rightarrow> transformation" where
  "started env t = t\<lparr>t_status := Processing, t_started_at := Some (te_now_started env)\<rparr>"

definition start_task ::
  "task_env \<Rightarrow> task_args \<Rightarrow> task_state \<Rightarrow> (exn + task_result) \<times> task_state" where
  "start_task env args st =
     (case te_query_begin env of
        Some e \<Rightarrow> (Inl e, st)
      | None \<Rightarrow>
          (case find (\<lambda>t. t_task_id t = ta_task_id args) (transformations (ts_session st)) of
             None \<Rightarrow> (Inr (ResultFailed ''Transformation not found''), st)
           | Some t \<Rightarrow>
               let st1 = change_transformation (ta_task_id args) (started env) st in
               (case te_commit_begin env of
                  Some e \<Rightarrow> (Inl e, st1)
                | None \<Rightarrow>
                    let st2 = commit_session st1;
                        st3 = emit_progress_update env (ta_task_id args) ''processing''
                                ''Starting image transformation...'' 10 st2;
                        (is_valid_prompt, prompt_error) = validate_prompt (ta_prompt args) 1000
                    in
                    if \<not> is_valid_prompt then
                      (Inl (PyExc ''ValueError'' (''Invalid prompt: '' @ prompt_error)), st3)
                    else
                      let (is_valid_params, params_error) =
                            validate_generation_parameters (ta_strength args)
                              (ta_guidance_scale args) (ta_num_inference_steps args)
                              (ta_seed args)
                      in
                      if \<not> is_valid_params then
                        (Inl (PyExc ''ValueError'' (''Invalid parameters: '' @ params_error)), st3)
                      else generate_result env args t st3)))"

text \<open>
  The handler of lines 130 to 160. The update of the record is inside a \<open>try\<close> of
  its own, whose handler logs the error of the database and goes on.
\<close>

definition failed_with :: "task_env \<Rightarrow> exn \<Rightarrow> transformation \<Rightarrow> transformation" where
  "failed_with env e t =
     (let t1 = t\<lparr>t_status := Failed,
                 t_completed_at := Some (te_now_failed env),
                 t_error_message := Some (str_exn e)\<rparr>
      in case t_started_at t1 of
           None \<Rightarrow> t1
         | Some start \<Rightarrow> t1\<lparr>t_processing_time := Some (te_now_failed_time env - start)\<rparr>)"

definition record_failure :: "task_env \<Rightarrow> task_args \<Rightarrow> exn \<Rightarrow> task_state \<Rightarrow> task_state" where
  "record_failure env args e st =
     (case te_query_failed env of
        Some db_error \<Rightarrow> st
      | None \<Rightarrow>
          (case find (\<lambda>t. t_task_id t = ta_task_id args) (transformations (ts_session st)) of
             None \<Rightarrow> st
           | Some t \<Rightarrow>
               let st1 = change_transformation (ta_task_id args) (failed_with env e) st in
               (case te_commit_failed env of
                  Some db_error \<Rightarrow> st1
                | None \<Rightarrow> commit_session st1)))"

definition handle_failure ::
  "task_env \<Rightarrow> task_args \<Rightarrow> exn \<Rightarrow> task_state \<Rightarrow> task_result \<times> task_state" where
  "handle_failure env args e st =
     (let st1 = record_failure env args e st;
          st2 = emit_progress_update env (ta_task_id args) ''failed''
                  (''Transformation failed: '' @ str_exn e) 0 st1
      in (ResultFailed (str_exn e), st2))"

text \<open>
  The task: the body, the handler for every exception of the body, and the final
  clean-up, which calls \<open>get_memory_usage\<close>, ignores what it raises, and changes
  nothing. The execution starts on the committed store, with nothing emitted.
\<close>

definition process_image_task :: "task_env \<Rightarrow> task_args \<Rightarrow> db \<Rightarrow> task_result \<times> task_state" where
  "process_image_task env args d =
     (case start_task env args \<lparr>ts_db = d, ts_session = committed d, ts_emitted = []\<rparr> of
        (Inr r, st) \<Rightarrow> (r, st)
      | (Inl e, st) \<Rightarrow> handle_failure env args e st)"

section \<open>services/diffusion_service.py\<close>

text \<open>
  The imaging library is not code of the repository. The three operations that
  \<open>preprocess_image\<close> calls are parameters of the model: \<open>pil_thumbnail\<close> is
  \<open>image.thumbnail(size, LANCZOS)\<close>, which changes the image in place and is given
  here as the image that results, \<open>pil_resize\<close> is \<open>image.resize(size, LANCZOS)\<close> and
  \<open>pil_convert\<close> is \<open>image.convert(mode)\<close>. Each of them may raise.
\<close>

record pil =
  pil_thumbnail :: "nat \<times> nat \<Rightarrow> pil_image \<Rightarrow> exn + pil_image"
  pil_resize :: "nat \<times> nat \<Rightarrow> pil_image \<Rightarrow> exn + pil_image"
  pil_convert :: "string \<Rightarrow> pil_image \<Rightarrow> exn + pil_image"

subsection \<open>preprocess_image\<close>


subsection \<open>The imaging library, as documented\<close>

text \<open>
  What the model needs of the library. For a square box of side \<open>m\<close> and an image with
  positive sides, \<open>thumbnail\<close> gives an image of the same mode that fits the box, is
  the image itself when it already fits and has its larger side equal to \<open>m\<close>
  otherwise, and keeps the aspect ratio up to the rounding of one side to a whole
  pixel: \<open>|w1 * H - h1 * W| < max W H\<close> for the sides \<open>(W, H)\<close> of the image and
  \<open>(w1, h1)\<close> of the thumbnail. \<open>resize\<close> gives an image of the requested size when
  both sides are positive and raises when a side is 0. \<open>convert\<close> changes the mode.
\<close>

definition thumbnail_post :: "nat \<Rightarrow> pil_image \<Rightarrow> pil_image \<Rightarrow> bool" where
  "thumbnail_post m img img1 =
     (0 < im_width img1 \<and> 0 < im_height img1
      \<and> im_width img1 \<le> m \<and> im_height img1 \<le> m
      \<and> im_mode img1 = im_mode img
      \<and> (if im_width img \<le> m \<and> im_height img \<le> m then img1 = img
         else max (im_width img1) (im_height img1) = m)
      \<and> \<bar>int (im_width img1) * int (im_height img) - int (im_height img1) * int (im_width img)\<bar>
          < int (max (im_width img) (im_height img)))"

definition pil_contract :: "pil \<Rightarrow> bool" where
  "pil_contract lib =
     ((\<forall>m img. 0 < m \<and> 0 < im_width img \<and> 0 < im_height img \<longrightarrow>
          (\<exists>img1. pil_thumbnail lib (m, m) img = Inr img1 \<and> thumbnail_post m img img1))
      \<and> (\<forall>w h img. 0 < w \<and> 0 < h \<longrightarrow>
            pil_resize lib (w, h) img = Inr (img\<lparr>im_width := w, im_height := h\<rparr>))
      \<and> (\<forall>w h img. w = 0 \<or> h = 0 \<longrightarrow> (\<exists>e. pil_resize lib (w, h) img = Inl e))
      \<and> (\<forall>mode img. pil_convert lib mode img = Inr (img\<lparr>im_mode := mode\<rparr>)))"






subsection \<open>The service and its collaborators\<close>

datatype device = Cuda | Cpu





subsection \<open>load_model\<close>



subsection \<open>load_controlnet\<close>



subsection \<open>generate_image\<close>









section \<open>routes/transform.py\<close>

subsection \<open>cancel_transformation\<close>

text \<open>
  What the environment does during the request: a value \<open>Some e\<close> is the exception
  that the call raises. \<open>ce_query\<close> is the query of line 246, \<open>ce_revoke\<close> the
  import of the task queue and \<open>celery.control.revoke\<close> (lines 261 and 262),
  \<open>ce_commit\<close> the commit of line 267.
\<close>

record cancel_env =
  ce_query :: "exn option"
  ce_revoke :: "exn option"
  ce_commit :: "exn option"

definition cancelled :: "transformation \<Rightarrow> transformation" where
  "cancelled t = t\<lparr>t_status := Failed, t_error_message := Some ''Cancelled by user''\<rparr>"

definition cancel_transformation ::
  "cancel_env \<Rightarrow> string \<Rightarrow> string \<Rightarrow> db \<Rightarrow> response \<times> db" where
  "cancel_transformation env current_user_id task_id d =
     (let mine = (\<lambda>t. t_task_id t = task_id \<and> t_user_id t = current_user_id);
          failure = ((500, ''Failed to cancel transformation''), d)
      in
      case ce_query env of
        Some e \<Rightarrow> failure
      | None \<Rightarrow>
          (case find mine (transformations (committed d)) of
             None \<Rightarrow> ((404, ''Transformation not found''), d)
           | Some t \<Rightarrow>
               if t_status t \<notin> set [Pending, Processing] then
                 ((400, ''Cannot cancel transformation''), d)
               else
                 (case ce_revoke env of
                    Some e \<Rightarrow> failure
                  | None \<Rightarrow>
                      let session = (committed d)
                            \<lparr>transformations :=
                               update_first mine cancelled (transformations (committed d))\<rparr>
                      in
                      (case ce_commit env of
                         Some e \<Rightarrow> failure
                       | None \<Rightarrow> ((200, ''Transformation cancelled''), commit session d)))))"

subsection \<open>upload_and_transform\<close>












section \<open>routes/gallery.py\<close>

text \<open>
  The JSON body of a request, field by field: \<open>None\<close> is a key that is not in the body.
  \<open>is_public\<close> is a JSON boolean. A request without a JSON object is \<open>None\<close> as a whole.
\<close>

record create_request =
  cr_transformation_id :: "string option"
  cr_title :: "string option"
  cr_description :: "string option"
  cr_tags :: "string list option"
  cr_is_public :: "bool option"


text \<open>
  The environment of a gallery request: the two queries and the commit may raise;
  \<open>ge_uuid\<close> is the primary key drawn for a new row, \<open>ge_token\<close> the value of
  \<open>secrets.token_urlsafe(32)\<close>, \<open>ge_now\<close> the clock.
\<close>

record gallery_env =
  ge_query_transformation :: "exn option"
  ge_query_item :: "exn option"
  ge_uuid :: string
  ge_token :: string
  ge_now :: int
  ge_commit :: "exn option"

text \<open>\<open>','.join(xs)\<close>.\<close>

fun join_comma :: "string list \<Rightarrow> string" where
  "join_comma [] = []"
| "join_comma [x] = x"
| "join_comma (x # y # ys) = x @ '','' @ join_comma (y # ys)"

text \<open>\<open>','.join([tag.strip() for tag in tags if tag.strip()])\<close>.\<close>

definition clean_tags :: "string list \<Rightarrow> string" where
  "clean_tags tags = join_comma (map strip (filter (\<lambda>tag. strip tag \<noteq> []) tags))"

text \<open>\<open>not data.get(key)\<close> on a string field: the key is missing or the text is empty.\<close>

fun missing :: "string option \<Rightarrow> bool" where
  "missing None = True"
| "missing (Some s) = (s = [])"

definition generate_share_token :: "gallery_env \<Rightarrow> gallery_item \<Rightarrow> gallery_item" where
  "generate_share_token env g = g\<lparr>g_share_token := Some (ge_token env)\<rparr>"

subsection \<open>create_gallery_item\<close>

definition new_gallery_item ::
  "gallery_env \<Rightarrow> string \<Rightarrow> transformation \<Rightarrow> create_request \<Rightarrow> gallery_item" where
  "new_gallery_item env current_user_id tr data =
     (let item = \<lparr>g_id = ge_uuid env,
                  g_user_id = current_user_id,
                  g_transformation_id = t_id tr,
                  g_title = strip (case cr_title data of Some s \<Rightarrow> s | None \<Rightarrow> []),
                  g_description = strip (case cr_description data of Some s \<Rightarrow> s | None \<Rightarrow> []),
                  g_tags = clean_tags (case cr_tags data of Some ts \<Rightarrow> ts | None \<Rightarrow> []),
                  g_is_public = (case cr_is_public data of Some b \<Rightarrow> b | None \<Rightarrow> False),
                  g_is_featured = False,
                  g_share_token = None,
                  g_view_count = 0,
                  g_like_count = 0,
                  g_download_count = 0,
                  g_created_at = ge_now env,
                  g_updated_at = ge_now env\<rparr>
      in if g_is_public item then generate_share_token env item else item)"

definition create_gallery_item ::
  "gallery_env \<Rightarrow> string \<Rightarrow> create_request option \<Rightarrow> db \<Rightarrow> response \<times> db" where
  "create_gallery_item env current_user_id body d =
     (let failure = ((500, ''Failed to create gallery item''), d) in
      case body of
        None \<Rightarrow> failure
      | Some data \<Rightarrow>
          if missing (cr_transformation_id data) \<or> missing (cr_title data) then
            ((400, ''transformation_id and title are required''), d)
          else
            (case ge_query_transformation env of
               Some e \<Rightarrow> failure
             | None \<Rightarrow>
                 (case find (\<lambda>t. Some (t_id t) = cr_transformation_id data
                                  \<and> t_user_id t = current_user_id)
                         (transformations (committed d)) of
                    None \<Rightarrow> ((404, ''Transformation not found''), d)
                  | Some tr \<Rightarrow>
                      if t_status tr \<noteq> Completed then
                        ((400, ''Transformation must be completed''), d)
                      else
                        (case ge_query_item env of
                           Some e \<Rightarrow> failure
                         | None \<Rightarrow>
                             (case find (\<lambda>g. g_transformation_id g = t_id tr
                                              \<and> g_user_id g = current_user_id)
                                     (gallery_items (committed d)) of
                                Some existing_item \<Rightarrow>
                                  ((409, ''Gallery item already exists for this transformation''), d)
                              | None \<Rightarrow>
                                  let session = (committed d)
                                        \<lparr>gallery_items := gallery_items (committed d)
                                           @ [new_gallery_item env current_user_id tr data]\<rparr>
                                  in
                                  (case ge_commit env of
                                     Some e \<Rightarrow> failure
                                   | None \<Rightarrow>
                                       ((201, ''Gallery item created successfully''),
                                        commit session d)))))))"

subsection \<open>update_gallery_item\<close>




section \<open>Sequences of operations on transformations\<close>




section \<open>Sequences of gallery requests\<close>




section \<open>Invariants of the data model, as the specification words them\<close>

text \<open>At most one gallery item per transformation per user.\<close>

definition one_item_per_pair :: "store \<Rightarrow> bool" where
  "one_item_per_pair s =
     distinct (map (\<lambda>g. (g_user_id g, g_transformation_id g)) (gallery_items s))"



section \<open>Status transitions, as the specification words them\<close>

text \<open>
  The transitions \<open>pending \<rightarrow> processing \<rightarrow> {completed | failed}\<close>, with the
  overwrite \<open>pending/processing \<rightarrow> failed\<close> of the cancellation; a status may also stay
  as it is, and a terminal status (completed, failed) can only stay as it is.
\<close>

fun status_step :: "status \<Rightarrow> status \<Rightarrow> bool" where
  "status_step Pending b = (b \<noteq> Completed)"
| "status_step Processing b = (b \<noteq> Pending)"
| "status_step Completed b = (b = Completed)"
| "status_step Failed b = (b = Failed)"


definition steps_ok :: "status list \<Rightarrow> status list \<Rightarrow> bool" where
  "steps_ok xs ys = (length xs \<le> length ys \<and> list_all2 status_step xs (take (length xs) ys))"









section \<open>Progress notifications, as the specification words them\<close>

text \<open>
  The percentages of the five phases, in phase order, and the notifications of an
  execution that are not the final notification of a failure.
\<close>

definition phase_percents :: "int list" where
  "phase_percents = [10, 20, 30, 40, 80, 100]"

definition before_failure :: "notification list \<Rightarrow> notification list" where
  "before_failure ns = filter (\<lambda>n. n_status n \<noteq> ''failed'') ns"

fun is_completed :: "task_result \<Rightarrow> bool" where
  "is_completed (ResultCompleted url time ident) = True"
| "is_completed (ResultFailed msg) = False"

text \<open>
  Notifications of the phases with strictly increasing percentages, none above \<open>hi\<close>
  and none of them the notification of a failure.
\<close>

definition phases_up_to :: "int \<Rightarrow> notification list \<Rightarrow> bool" where
  "phases_up_to hi ns =
     (sorted_wrt (<) (map n_progress ns)
      \<and> list_all (\<lambda>n. n_progress n \<le> hi \<and> n_progress n \<in> set phase_percents
                       \<and> n_status n \<noteq> ''failed'') ns)"

section \<open>Example data\<close>

definition example_transformation :: "string \<Rightarrow> status \<Rightarrow> transformation" where
  "example_transformation task st =
     \<lparr>t_id = ''id-'' @ task,
      t_user_id = ''alice'',
      t_task_id = task,
      t_status = st,
      t_original_filename = ''cat.jpg'',
      t_original_url = ''/uploads/originals/cat.jpg'',
      t_original_size = 1000,
      t_model_name = ''stable-diffusion-v1-5'',
      t_prompt = ''a woodblock print'',
      t_negative_prompt = [],
      t_strength = Finite 0.8,
      t_guidance_scale = Finite 7.5,
      t_num_inference_steps = 20,
      t_seed = None,
      t_result_filename = None,
      t_result_url = None,
      t_result_size = None,
      t_processing_time = None,
      t_gpu_memory_used = None,
      t_error_message = None,
      t_created_at = 0,
      t_started_at = None,
      t_completed_at = None\<rparr>"

definition example_store :: store where
  "example_store =
     \<lparr>users = [\<lparr>u_id = ''alice'', u_total_transformations = 0\<rparr>],
      transformations =
        [example_transformation ''job-1'' Pending, example_transformation ''job-2'' Completed],
      gallery_items = []\<rparr>"

definition example_db :: db where
  "example_db = \<lparr>committed = example_store, observed = [example_store]\<rparr>"

definition quiet_cancel_env :: cancel_env where
  "quiet_cancel_env = \<lparr>ce_query = None, ce_revoke = None, ce_commit = None\<rparr>"

definition quiet_gallery_env :: gallery_env where
  "quiet_gallery_env =
     \<lparr>ge_query_transformation = None, ge_query_item = None, ge_uuid = ''item-1'',
      ge_token = ''tok-1'', ge_now = 5, ge_commit = None\<rparr>"

definition example_create_request :: "bool \<Rightarrow> create_request" where
  "example_create_request public =
     \<lparr>cr_transformation_id = Some ''id-job-2'', cr_title = Some ''My print'',
      cr_description = None, cr_tags = Some [''ukiyo'', '' cat ''],
      cr_is_public = Some public\<rparr>"


definition example_item :: "bool \<Rightarrow> gallery_item" where
  "example_item public =
     \<lparr>g_id = ''item-1'', g_user_id = ''alice'', g_transformation_id = ''id-job-2'',
      g_title = ''My print'', g_description = [], g_tags = ''ukiyo,cat'',
      g_is_public = public, g_is_featured = False,
      g_share_token = (if public then Some ''tok-1'' else None),
      g_view_count = 0, g_like_count = 0, g_download_count = 0,
      g_created_at = 5, g_updated_at = 5\<rparr>"

definition example_db_with_item :: "bool \<Rightarrow> db" where
  "example_db_with_item public =
     (let s = example_store\<lparr>gallery_items := [example_item public]\<rparr>
      in \<lparr>committed = s, observed = [example_store, s]\<rparr>)"

definition quiet_task_env :: task_env where
  "quiet_task_env =
     \<lparr>te_query_begin = None, te_now_started = 10, te_commit_begin = None,
      te_socket = (\<lambda>n. None), te_load_model = True, te_image_open = None,
      te_memory_before = Inr 0,
      te_generate = Some \<lparr>im_width = 512, im_height = 512, im_mode = ''RGB''\<rparr>,
      te_result_uuid = ''r1'', te_upload = Inr ''/uploads/results/result_r1.jpg'',
      te_now_uploaded = 30, te_memory_after = Inr 0, te_now_completed = 31,
      te_result_size = 786432, te_query_user = None, te_commit_result = None,
      te_query_failed = None, te_now_failed = 40, te_now_failed_time = 41,
      te_commit_failed = None\<rparr>"

definition example_task_args :: "string \<Rightarrow> string \<Rightarrow> task_args" where
  "example_task_args task prompt =
     \<lparr>ta_task_id = task, ta_user_id = ''alice'', ta_filename = ''u1_cat.jpg'',
      ta_model_name = ''stable-diffusion-v1-5'', ta_prompt = prompt,
      ta_negative_prompt = [], ta_strength = Finite 0.8, ta_guidance_scale = Finite 7.5,
      ta_num_inference_steps = 20, ta_seed = None\<rparr>"

text \<open>
  Two executions that fail while storing the result: in the first only the storage
  raises, in the second the database also raises when the handler commits.
\<close>

definition storage_down_env :: task_env where
  "storage_down_env = quiet_task_env\<lparr>te_upload := Inl (PyExc ''OSError'' ''disk full'')\<rparr>"

definition database_down_env :: task_env where
  "database_down_env =
     storage_down_env\<lparr>te_commit_failed := Some (PyExc ''OperationalError'' ''database is down'')\<rparr>"

definition example_start :: task_state where
  "example_start = \<lparr>ts_db = example_db, ts_session = committed example_db, ts_emitted = []\<rparr>"














section \<open>Properties of the validators\<close>


lemma fle_lower: "fle (Finite lo) x \<and> fle x (Finite hi) \<longleftrightarrow> in_closed_range lo hi x"
  by (cases x) simp_all

lemma validate_generation_parameters_iff:
  "fst (validate_generation_parameters s g n seed) \<longleftrightarrow> parameters_in_spec_ranges s g n seed"
proof (cases seed)
  case None
  then show ?thesis
    by (simp add: validate_generation_parameters_def parameters_in_spec_ranges_def fle_lower)
next
  case (Some v)
  then show ?thesis
    by (auto simp add: validate_generation_parameters_def parameters_in_spec_ranges_def fle_lower)
qed

text \<open>
  C3. \<open>validate_generation_parameters\<close> succeeds exactly when strength is in [0.1, 1.0],
  guidance scale is in [1.0, 20.0], the step count is in [10, 100] and the seed is absent
  or a non-negative integer below \<open>2^32\<close>. It rejects strength 0.05 and 1.01, guidance
  scale 0.5, 5 and 101 steps and seed -1 whatever the other arguments are, and accepts
  the boundary values strength 0.1 and 1.0, 10 and 100 steps (the other arguments at the
  defaults of the task: guidance scale 7.5, 20 steps, strength 0.8, no seed).
\<close>

theorem validate_generation_parameters_spec:
  "(fst (validate_generation_parameters s g n seed) \<longleftrightarrow> parameters_in_spec_ranges s g n seed)
   \<and> \<not> fst (validate_generation_parameters (Finite 0.05) g n seed)
   \<and> \<not> fst (validate_generation_parameters (Finite 1.01) g n seed)
   \<and> \<not> fst (validate_generation_parameters s (Finite 0.5) n seed)
   \<and> \<not> fst (validate_generation_parameters s g 5 seed)
   \<and> \<not> fst (validate_generation_parameters s g 101 seed)
   \<and> \<not> fst (validate_generation_parameters s g n (Some (- 1)))
   \<and> validate_generation_parameters (Finite 0.1) (Finite 7.5) 20 None = (True, ''Valid parameters'')
   \<and> validate_generation_parameters (Finite 1.0) (Finite 7.5) 20 None = (True, ''Valid parameters'')
   \<and> validate_generation_parameters (Finite 0.8) (Finite 7.5) 10 None = (True, ''Valid parameters'')
   \<and> validate_generation_parameters (Finite 0.8) (Finite 7.5) 100 None = (True, ''Valid parameters'')"
  unfolding validate_generation_parameters_iff
  by (simp add: parameters_in_spec_ranges_def validate_generation_parameters_def)

lemma validate_image_cases:
  "validate_image fo os f =
     Inr (case check_size_and_content fo os f of
            Inl e \<Rightarrow> (False, ''File validation failed'')
          | Inr r \<Rightarrow> r)"
  by (simp add: validate_image_def split: sum.split)

text \<open>
  C10. \<open>validate_image\<close> is total at its interface: whatever the file object and the
  decoder do, also when a seek, the read of the position, the decoding, the verification
  or the parsing of a configured limit raises, the call returns a pair of a boolean and
  a message, and no exception reaches the caller.
\<close>

theorem validate_image_total:
  "\<exists>ok msg. validate_image fo os f = Inr (ok, msg)"
proof -
  obtain ok msg where
    "(case check_size_and_content fo os f of
        Inl e \<Rightarrow> (False, ''File validation failed'')
      | Inr r \<Rightarrow> r) = (ok, msg)"
    by (cases "case check_size_and_content fo os f of
                 Inl e \<Rightarrow> (False, ''File validation failed'')
               | Inr r \<Rightarrow> r") blast
  then have "validate_image fo os f = Inr (ok, msg)"
    by (simp only: validate_image_cases)
  then show ?thesis by blast
qed

section \<open>Properties of the routes\<close>

lemma find_update_first:
  "find P xs = Some x \<Longrightarrow> P (f x) \<Longrightarrow> find P (update_first P f xs) = Some (f x)"
  by (induction xs) (auto split: if_splits)

lemma find_holds: "find P xs = Some x \<Longrightarrow> P x"
  by (induction xs) (auto split: if_splits)


subsection \<open>Cancellation\<close>

lemma cancel_terminal:
  assumes "find (\<lambda>t. t_task_id t = task_id \<and> t_user_id t = uid)
             (transformations (committed d)) = Some t"
    and "t_status t = Completed \<or> t_status t = Failed"
  shows "snd (cancel_transformation env uid task_id d) = d"
    and "fst (fst (cancel_transformation env uid task_id d)) \<noteq> 200"
    and "ce_query env = None \<longrightarrow>
           fst (cancel_transformation env uid task_id d) = (400, ''Cannot cancel transformation'')"
  using assms by (auto simp: cancel_transformation_def Let_def split: option.splits)

lemma cancel_active:
  assumes f: "find (\<lambda>t. t_task_id t = task_id \<and> t_user_id t = uid)
                (transformations (committed d)) = Some t"
    and "t_status t = Pending \<or> t_status t = Processing"
    and "ce_query env = None" "ce_revoke env = None" "ce_commit env = None"
  shows "fst (cancel_transformation env uid task_id d) = (200, ''Transformation cancelled'')"
    and "find (\<lambda>t. t_task_id t = task_id \<and> t_user_id t = uid)
           (transformations (committed (snd (cancel_transformation env uid task_id d))))
         = Some (t\<lparr>t_status := Failed, t_error_message := Some ''Cancelled by user''\<rparr>)"
proof -
  let ?mine = "\<lambda>t. t_task_id t = task_id \<and> t_user_id t = uid"
  have "?mine t" using find_holds [OF f] .
  then have "?mine (cancelled t)" by (simp add: cancelled_def)
  then have u: "find ?mine (update_first ?mine cancelled (transformations (committed d)))
                = Some (cancelled t)"
    using find_update_first [OF f] by blast
  show "fst (cancel_transformation env uid task_id d) = (200, ''Transformation cancelled'')"
    using assms by (auto simp: cancel_transformation_def Let_def)
  show "find ?mine (transformations (committed (snd (cancel_transformation env uid task_id d))))
         = Some (t\<lparr>t_status := Failed, t_error_message := Some ''Cancelled by user''\<rparr>)"
    using assms u by (auto simp: cancel_transformation_def Let_def commit_def cancelled_def)
qed

text \<open>
  C6. For the transformation that the request addresses (the caller's row with the task
  identifier): when its status is completed or failed, the cancellation is rejected (the
  response is not 200; it is 400 with \<open>Cannot cancel transformation\<close> when the query
  answers) and the database is left as it was; when its status is pending or processing
  and the query, the revocation on the task queue and the commit go through, the
  response is 200 and the row has status failed and the error message
  \<open>Cancelled by user\<close>.
\<close>

theorem cancel_transformation_spec:
  assumes "find (\<lambda>t. t_task_id t = task_id \<and> t_user_id t = uid)
             (transformations (committed d)) = Some t"
  shows "(t_status t = Completed \<or> t_status t = Failed \<longrightarrow>
            snd (cancel_transformation env uid task_id d) = d
            \<and> fst (fst (cancel_transformation env uid task_id d)) \<noteq> 200
            \<and> (ce_query env = None \<longrightarrow>
                 fst (cancel_transformation env uid task_id d)
                 = (400, ''Cannot cancel transformation'')))
       \<and> ((t_status t = Pending \<or> t_status t = Processing)
            \<and> ce_query env = None \<and> ce_revoke env = None \<and> ce_commit env = None \<longrightarrow>
            fst (cancel_transformation env uid task_id d) = (200, ''Transformation cancelled'')
            \<and> find (\<lambda>t. t_task_id t = task_id \<and> t_user_id t = uid)
                 (transformations (committed (snd (cancel_transformation env uid task_id d))))
               = Some (t\<lparr>t_status := Failed, t_error_message := Some ''Cancelled by user''\<rparr>))"
  using cancel_terminal [OF assms] cancel_active [OF assms] by blast

theorem cancel_transformation_spec_witness:
  "find (\<lambda>t. t_task_id t = ''job-1'' \<and> t_user_id t = ''alice'')
     (transformations (committed example_db)) = Some (example_transformation ''job-1'' Pending)
   \<and> fst (cancel_transformation quiet_cancel_env ''alice'' ''job-1'' example_db)
       = (200, ''Transformation cancelled'')
   \<and> find (\<lambda>t. t_task_id t = ''job-1'' \<and> t_user_id t = ''alice'')
        (transformations
          (committed (snd (cancel_transformation quiet_cancel_env ''alice'' ''job-1'' example_db))))
       = Some ((example_transformation ''job-1'' Pending)
                 \<lparr>t_status := Failed, t_error_message := Some ''Cancelled by user''\<rparr>)
   \<and> find (\<lambda>t. t_task_id t = ''job-2'' \<and> t_user_id t = ''alice'')
        (transformations (committed example_db)) = Some (example_transformation ''job-2'' Completed)
   \<and> cancel_transformation quiet_cancel_env ''alice'' ''job-2'' example_db
       = ((400, ''Cannot cancel transformation''), example_db)"
proof -
  have f1: "find (\<lambda>t. t_task_id t = ''job-1'' \<and> t_user_id t = ''alice'')
              (transformations (committed example_db))
            = Some (example_transformation ''job-1'' Pending)"
    by (simp add: example_db_def example_store_def example_transformation_def)
  have f2: "find (\<lambda>t. t_task_id t = ''job-2'' \<and> t_user_id t = ''alice'')
              (transformations (committed example_db))
            = Some (example_transformation ''job-2'' Completed)"
    by (simp add: example_db_def example_store_def example_transformation_def)
  have s1: "t_status (example_transformation ''job-1'' Pending) = Pending"
    and s2: "t_status (example_transformation ''job-2'' Completed) = Completed"
    by (simp_all add: example_transformation_def)
  have q: "ce_query quiet_cancel_env = None" "ce_revoke quiet_cancel_env = None"
    "ce_commit quiet_cancel_env = None"
    by (simp_all add: quiet_cancel_env_def)
  show ?thesis
    using cancel_transformation_spec [OF f1, of quiet_cancel_env]
      cancel_transformation_spec [OF f2, of quiet_cancel_env] f1 f2 s1 s2 q
    by (simp add: prod_eq_iff)
qed

subsection \<open>Gallery items\<close>

lemma create_db_cases:
  "snd (create_gallery_item env uid body d) = d \<or>
   (\<exists>data tr. body = Some data \<and>
      find (\<lambda>t. Some (t_id t) = cr_transformation_id data \<and> t_user_id t = uid)
        (transformations (committed d)) = Some tr \<and>
      find (\<lambda>g. g_transformation_id g = t_id tr \<and> g_user_id g = uid)
        (gallery_items (committed d)) = None \<and>
      snd (create_gallery_item env uid body d) =
        commit ((committed d)\<lparr>gallery_items := gallery_items (committed d)
                  @ [new_gallery_item env uid tr data]\<rparr>) d)"
  by (auto simp: create_gallery_item_def Let_def split: option.splits)

lemma new_item_pair:
  "g_user_id (new_gallery_item env uid tr data) = uid \<and>
   g_transformation_id (new_gallery_item env uid tr data) = t_id tr"
  by (simp add: new_gallery_item_def Let_def generate_share_token_def)

lemma create_keeps_one_item_per_pair:
  assumes "one_item_per_pair (committed d)"
  shows "one_item_per_pair (committed (snd (create_gallery_item env uid body d)))"
proof -
  consider (same) "snd (create_gallery_item env uid body d) = d"
    | (new) data tr where
      "find (\<lambda>g. g_transformation_id g = t_id tr \<and> g_user_id g = uid)
         (gallery_items (committed d)) = None"
      "snd (create_gallery_item env uid body d) =
         commit ((committed d)\<lparr>gallery_items := gallery_items (committed d)
                   @ [new_gallery_item env uid tr data]\<rparr>) d"
    using create_db_cases [of env uid body d] by blast
  then show ?thesis
  proof cases
    case same
    then show ?thesis using assms by simp
  next
    case new
    from new(1) have "(uid, t_id tr) \<notin>
        set (map (\<lambda>g. (g_user_id g, g_transformation_id g)) (gallery_items (committed d)))"
      by (auto simp: find_None_iff)
    with assms new(2) show ?thesis
      by (simp add: one_item_per_pair_def commit_def new_item_pair)
  qed
qed

lemma create_conflict_unchanged:
  assumes "find (\<lambda>g. g_transformation_id g = tid \<and> g_user_id g = uid)
             (gallery_items (committed d)) = Some g"
    and "cr_transformation_id data = Some tid"
  shows "snd (create_gallery_item env uid (Some data) d) = d"
proof (rule ccontr)
  assume "snd (create_gallery_item env uid (Some data) d) \<noteq> d"
  then obtain data' tr where b: "Some data = Some data'"
    and t: "find (\<lambda>t. Some (t_id t) = cr_transformation_id data' \<and> t_user_id t = uid)
              (transformations (committed d)) = Some tr"
    and n: "find (\<lambda>g. g_transformation_id g = t_id tr \<and> g_user_id g = uid)
              (gallery_items (committed d)) = None"
    using create_db_cases [of env uid "Some data" d] by blast
  from find_holds [OF t] b assms(2) have "t_id tr = tid" by simp
  with n assms(1) show False by simp
qed

lemma create_conflict_409:
  assumes "find (\<lambda>g. g_transformation_id g = tid \<and> g_user_id g = uid)
             (gallery_items (committed d)) = Some g"
    and "cr_transformation_id data = Some tid" "\<not> missing (cr_title data)" "tid \<noteq> []"
    and "find (\<lambda>t. t_id t = tid \<and> t_user_id t = uid) (transformations (committed d)) = Some tr"
    and "t_status tr = Completed"
    and "ge_query_transformation env = None" "ge_query_item env = None"
  shows "fst (create_gallery_item env uid (Some data) d)
         = (409, ''Gallery item already exists for this transformation'')"
proof -
  have "(\<lambda>t. Some (t_id t) = cr_transformation_id data \<and> t_user_id t = uid)
        = (\<lambda>t. t_id t = tid \<and> t_user_id t = uid)"
    using assms(2) by auto
  moreover have "t_id tr = tid" using find_holds [OF assms(5)] by simp
  ultimately show ?thesis
    using assms by (simp add: create_gallery_item_def Let_def)
qed

text \<open>
  C7. When the user already has a gallery item for the transformation that the request
  names, \<open>create_gallery_item\<close> creates nothing: the database is left as it was,
  whatever the environment does. When the request is otherwise acceptable (a title, the
  caller's completed transformation) and the two queries answer, the response is the
  conflict 409. Every call of \<open>create_gallery_item\<close>, with any request, keeps the
  invariant that there is at most one gallery item per transformation per user.
\<close>

theorem create_gallery_item_conflict:
  assumes "find (\<lambda>g. g_transformation_id g = tid \<and> g_user_id g = uid)
             (gallery_items (committed d)) = Some g"
    and "cr_transformation_id data = Some tid"
  shows "snd (create_gallery_item env uid (Some data) d) = d
       \<and> (\<not> missing (cr_title data) \<and> tid \<noteq> []
            \<and> ge_query_transformation env = None \<and> ge_query_item env = None
            \<and> find (\<lambda>t. t_id t = tid \<and> t_user_id t = uid) (transformations (committed d))
                = Some tr
            \<and> t_status tr = Completed \<longrightarrow>
            fst (create_gallery_item env uid (Some data) d)
            = (409, ''Gallery item already exists for this transformation''))
       \<and> (one_item_per_pair (committed d) \<longrightarrow>
            one_item_per_pair (committed (snd (create_gallery_item env' uid' body' d))))"
  using create_conflict_unchanged [OF assms] create_conflict_409 [OF assms]
    create_keeps_one_item_per_pair
  by blast

theorem create_gallery_item_conflict_witness:
  "find (\<lambda>g. g_transformation_id g = ''id-job-2'' \<and> g_user_id g = ''alice'')
     (gallery_items (committed (example_db_with_item True))) = Some (example_item True)
   \<and> cr_transformation_id (example_create_request False) = Some ''id-job-2''
   \<and> create_gallery_item quiet_gallery_env ''alice'' (Some (example_create_request False))
       (example_db_with_item True)
     = ((409, ''Gallery item already exists for this transformation''), example_db_with_item True)
   \<and> one_item_per_pair (committed (example_db_with_item True))
   \<and> one_item_per_pair (committed (snd (create_gallery_item quiet_gallery_env ''alice''
        (Some (example_create_request True)) (example_db_with_item True))))"
proof -
  have f: "find (\<lambda>g. g_transformation_id g = ''id-job-2'' \<and> g_user_id g = ''alice'')
             (gallery_items (committed (example_db_with_item True))) = Some (example_item True)"
    by (simp add: example_db_with_item_def example_item_def Let_def)
  have r: "cr_transformation_id (example_create_request False) = Some ''id-job-2''"
    by (simp add: example_create_request_def)
  have t: "\<not> missing (cr_title (example_create_request False))"
    by (simp add: example_create_request_def)
  have q: "ge_query_transformation quiet_gallery_env = None"
    "ge_query_item quiet_gallery_env = None"
    by (simp_all add: quiet_gallery_env_def)
  have tr: "find (\<lambda>t. t_id t = ''id-job-2'' \<and> t_user_id t = ''alice'')
              (transformations (committed (example_db_with_item True)))
            = Some (example_transformation ''job-2'' Completed)"
    by (simp add: example_db_with_item_def example_store_def example_transformation_def Let_def)
  have st: "t_status (example_transformation ''job-2'' Completed) = Completed"
    by (simp add: example_transformation_def)
  have inv: "one_item_per_pair (committed (example_db_with_item True))"
    by (simp add: one_item_per_pair_def example_db_with_item_def Let_def)
  show ?thesis
    using create_gallery_item_conflict [OF f r, of quiet_gallery_env
        "example_transformation ''job-2'' Completed" quiet_gallery_env "''alice''"
        "Some (example_create_request True)"]
      f r t q tr st inv
    by (simp add: prod_eq_iff)
qed











section \<open>Properties of the orchestration task\<close>

lemma emitted_emit:
  "ts_emitted (emit_progress_update env tid s m p st) =
   ts_emitted st @ filter (\<lambda>n. te_socket env n = None)
     [\<lparr>n_task_id = tid, n_status = s, n_message = m, n_progress = p\<rparr>]"
  by (simp add: emit_progress_update_def Let_def split: option.split)

lemma db_emit:
  "ts_db (emit_progress_update env tid s m p st) = ts_db st"
  "ts_session (emit_progress_update env tid s m p st) = ts_session st"
  by (simp_all add: emit_progress_update_def Let_def split: option.split)

lemma emitted_other:
  "ts_emitted (commit_session st) = ts_emitted st"
  "ts_emitted (change_transformation tid f st) = ts_emitted st"
  "ts_emitted (count_transformation uid st) = ts_emitted st"
  by (simp_all add: commit_session_def change_transformation_def count_transformation_def)

lemma emitted_record_failure: "ts_emitted (record_failure env args e st) = ts_emitted st"
  by (simp add: record_failure_def Let_def emitted_other split: option.split)

subsection \<open>The order of the progress notifications\<close>

lemma phases_mono: "phases_up_to lo ns \<Longrightarrow> lo \<le> hi \<Longrightarrow> phases_up_to hi ns"
  by (auto simp: phases_up_to_def list_all_iff)

lemma phases_emit:
  assumes "phases_up_to lo (ts_emitted st)" "lo < p" "p \<le> hi" "p \<in> set phase_percents"
    "s \<noteq> ''failed''"
  shows "phases_up_to hi (ts_emitted (emit_progress_update env tid s m p st))"
  using assms
  by (auto simp: emitted_emit phases_up_to_def list_all_iff sorted_wrt_append)

lemma phases_other:
  "phases_up_to hi (ts_emitted (commit_session st)) = phases_up_to hi (ts_emitted st)"
  "phases_up_to hi (ts_emitted (change_transformation tid f st)) = phases_up_to hi (ts_emitted st)"
  "phases_up_to hi (ts_emitted (count_transformation uid st)) = phases_up_to hi (ts_emitted st)"
  by (simp_all add: emitted_other)

lemma save_result_phases:
  assumes "phases_up_to 40 (ts_emitted st)"
  shows "phases_up_to 100 (ts_emitted (snd (save_result env args t mb st)))"
proof -
  let ?tid = "ta_task_id args"
  let ?st1 = "emit_progress_update env ?tid ''processing'' ''Saving result...'' 80 st"
  have g1: "phases_up_to 80 (ts_emitted ?st1)"
    by (rule phases_emit [OF assms]) (simp_all add: phase_percents_def)
  then have g1': "phases_up_to 100 (ts_emitted ?st1)"
    by (rule phases_mono) simp
  have g2: "phases_up_to 100 (ts_emitted (emit_progress_update env ?tid ''completed'' m 100
        (commit_session (count_transformation u (change_transformation ?tid f ?st1)))))"
    for m u f
    by (rule phases_emit [where lo = 80]) (simp_all add: phase_percents_def phases_other g1)
  show ?thesis
    using g1' g2
    by (simp add: save_result_def Let_def phases_other split: sum.split option.split)
qed

lemma generate_result_phases:
  assumes "phases_up_to 10 (ts_emitted st)"
  shows "phases_up_to 100 (ts_emitted (snd (generate_result env args t st)))"
proof -
  let ?tid = "ta_task_id args"
  let ?st1 = "emit_progress_update env ?tid ''processing'' ''Loading AI model...'' 20 st"
  let ?st2 = "emit_progress_update env ?tid ''processing'' ''Preprocessing image...'' 30 ?st1"
  let ?st3 = "emit_progress_update env ?tid ''processing''
                ''Generating transformed image...'' 40 ?st2"
  have g1: "phases_up_to 20 (ts_emitted ?st1)"
    by (rule phases_emit [OF assms]) (simp_all add: phase_percents_def)
  have g2: "phases_up_to 30 (ts_emitted ?st2)"
    by (rule phases_emit [OF g1]) (simp_all add: phase_percents_def)
  have g3: "phases_up_to 40 (ts_emitted ?st3)"
    by (rule phases_emit [OF g2]) (simp_all add: phase_percents_def)
  have "phases_up_to 100 (ts_emitted ?st1)" "phases_up_to 100 (ts_emitted ?st2)"
    "phases_up_to 100 (ts_emitted ?st3)"
    using g1 g2 g3 by (auto intro: phases_mono)
  then show ?thesis
    using save_result_phases [OF g3]
    by (simp add: generate_result_def Let_def split: sum.split option.split)
qed

lemma start_task_phases:
  assumes "ts_emitted st = []"
  shows "phases_up_to 100 (ts_emitted (snd (start_task env args st)))"
proof -
  let ?tid = "ta_task_id args"
  let ?st2 = "commit_session (change_transformation ?tid (started env) st)"
  let ?st3 = "emit_progress_update env ?tid ''processing''
                ''Starting image transformation...'' 10 ?st2"
  have g0: "phases_up_to 0 (ts_emitted ?st2)"
    using assms by (simp add: emitted_other phases_up_to_def)
  have e: "phases_up_to 100 (ts_emitted st)"
    "phases_up_to 100 (ts_emitted (change_transformation ?tid (started env) st))"
    using assms by (simp_all add: emitted_other phases_up_to_def)
  have g3: "phases_up_to 10 (ts_emitted ?st3)"
    by (rule phases_emit [OF g0]) (simp_all add: phase_percents_def)
  then have "phases_up_to 100 (ts_emitted ?st3)"
    by (rule phases_mono) simp
  then show ?thesis
    using generate_result_phases [OF g3] e
    by (simp add: start_task_def Let_def split: sum.split option.split prod.split)
qed

lemma before_failure_phases: "phases_up_to hi ns \<Longrightarrow> before_failure ns = ns"
  by (auto simp: phases_up_to_def before_failure_def list_all_iff filter_id_conv)

lemma progress_order_aux:
  fixes env args d
  defines "ns \<equiv> ts_emitted (snd (process_image_task env args d))"
  shows "phases_up_to 100 (before_failure ns)
     \<and> (ns = before_failure ns \<or>
        (\<exists>msg. ns = before_failure ns
                 @ [\<lparr>n_task_id = ta_task_id args, n_status = ''failed'', n_message = msg,
                      n_progress = 0\<rparr>]))
     \<and> (is_completed (fst (process_image_task env args d)) \<longrightarrow> ns = before_failure ns)"
proof -
  let ?st0 = "\<lparr>ts_db = d, ts_session = committed d, ts_emitted = []\<rparr>"
  obtain r st where s: "start_task env args ?st0 = (r, st)"
    by (cases "start_task env args ?st0")
  have g: "phases_up_to 100 (ts_emitted st)"
    using start_task_phases [of ?st0 env args] s by simp
  show ?thesis
  proof (cases r)
    case (Inr res)
    then have "ns = ts_emitted st"
      by (simp add: ns_def process_image_task_def s)
    then show ?thesis
      using g before_failure_phases [OF g] by simp
  next
    case (Inl e)
    let ?n = "\<lparr>n_task_id = ta_task_id args, n_status = ''failed'',
        n_message = ''Transformation failed: '' @ str_exn e, n_progress = 0\<rparr>"
    have ns: "ns = ts_emitted st @ filter (\<lambda>n. te_socket env n = None) [?n]"
      and res: "fst (process_image_task env args d) = ResultFailed (str_exn e)"
      using Inl
      by (simp_all add: ns_def process_image_task_def s handle_failure_def Let_def
            emitted_emit emitted_record_failure)
    have bf: "before_failure ns = ts_emitted st"
      using before_failure_phases [OF g] by (simp add: ns before_failure_def)
    show ?thesis
      using g bf res ns by (cases "te_socket env ?n = None") auto
  qed
qed

text \<open>
  C4, as stated, fails: an execution that is rejected at the validation of the prompt
  emits the percentages 10 and then 0.
\<close>

theorem progress_decreases_on_failure:
  "\<not> sorted (map n_progress (ts_emitted (snd
        (process_image_task quiet_task_env (example_task_args ''job-1'' []) example_db))))"
proof -
  have "map n_progress (ts_emitted (snd
          (process_image_task quiet_task_env (example_task_args ''job-1'' []) example_db)))
        = [10, 0]"
    by code_simp
  then show ?thesis by simp
qed

text \<open>
  C4, amended. In every execution of the task the notifications are emitted in phase
  order: those that precede the notification of a failure have strictly increasing
  percentages, taken from the percentages of the phases (10, 20, 30, 40, 80, 100). The
  emitted sequence is either exactly these, or these followed by one final notification
  with status \<open>failed\<close> and percent 0. In an execution that completes there is no such
  final notification, so all the emitted percentages are non-decreasing.
\<close>

theorem progress_notifications_in_phase_order:
  fixes env args d
  defines "ns \<equiv> ts_emitted (snd (process_image_task env args d))"
  shows "sorted_wrt (<) (map n_progress (before_failure ns))
       \<and> set (map n_progress (before_failure ns)) \<subseteq> set phase_percents
       \<and> (ns = before_failure ns \<or>
          (\<exists>msg. ns = before_failure ns
                   @ [\<lparr>n_task_id = ta_task_id args, n_status = ''failed'', n_message = msg,
                        n_progress = 0\<rparr>]))
       \<and> (is_completed (fst (process_image_task env args d)) \<longrightarrow>
            sorted (map n_progress ns))"
proof -
  note aux = progress_order_aux [of env args d, folded ns_def]
  from aux have p: "phases_up_to 100 (before_failure ns)" by blast
  then have s: "sorted_wrt (<) (map n_progress (before_failure ns))"
    and m: "set (map n_progress (before_failure ns)) \<subseteq> set phase_percents"
    by (auto simp: phases_up_to_def list_all_iff)
  have "sorted (map n_progress (before_failure ns))"
    using s by (simp add: strict_sorted_imp_sorted)
  with aux s m show ?thesis by auto
qed

theorem progress_notifications_in_phase_order_witness:
  "is_completed (fst (process_image_task quiet_task_env
      (example_task_args ''job-1'' ''a woodblock print'') example_db))
   \<and> map n_progress (ts_emitted (snd (process_image_task quiet_task_env
        (example_task_args ''job-1'' ''a woodblock print'') example_db)))
     = [10, 20, 30, 40, 80, 100]
   \<and> sorted (map n_progress (ts_emitted (snd (process_image_task quiet_task_env
        (example_task_args ''job-1'' ''a woodblock print'') example_db))))"
proof -
  have c: "is_completed (fst (process_image_task quiet_task_env
      (example_task_args ''job-1'' ''a woodblock print'') example_db))"
    by code_simp
  have p: "map n_progress (ts_emitted (snd (process_image_task quiet_task_env
        (example_task_args ''job-1'' ''a woodblock print'') example_db)))
     = [10, 20, 30, 40, 80, 100]"
    by code_simp
  from c progress_notifications_in_phase_order
    [of quiet_task_env "example_task_args ''job-1'' ''a woodblock print''" example_db]
  have "sorted (map n_progress (ts_emitted (snd (process_image_task quiet_task_env
        (example_task_args ''job-1'' ''a woodblock print'') example_db))))"
    by blast
  with c p show ?thesis by blast
qed

subsection \<open>The recording of a failure\<close>

lemma failed_with_task_id: "t_task_id (failed_with env e t) = t_task_id t"
  by (simp add: failed_with_def Let_def split: option.split)

lemma failed_with_fields:
  "t_status (failed_with env e t) = Failed"
  "t_error_message (failed_with env e t) = Some (str_exn e)"
  "t_processing_time (failed_with env e t) =
     (case t_started_at t of
        None \<Rightarrow> t_processing_time t
      | Some start \<Rightarrow> Some (te_now_failed_time env - start))"
  by (simp_all add: failed_with_def Let_def split: option.split)

lemma record_failure_recorded:
  assumes "te_query_failed env = None" "te_commit_failed env = None"
    and f: "find (\<lambda>t. t_task_id t = ta_task_id args) (transformations (ts_session st)) = Some t"
  shows "find (\<lambda>t. t_task_id t = ta_task_id args)
           (transformations (committed (ts_db (record_failure env args e st))))
         = Some (failed_with env e t)"
proof -
  have "t_task_id (failed_with env e t) = ta_task_id args"
    using find_holds [OF f] by (simp add: failed_with_task_id)
  then have "find (\<lambda>t. t_task_id t = ta_task_id args)
      (update_first (\<lambda>t. t_task_id t = ta_task_id args) (failed_with env e)
         (transformations (ts_session st)))
     = Some (failed_with env e t)"
    using find_update_first [OF f] by blast
  then show ?thesis
    using assms
    by (simp add: record_failure_def Let_def commit_session_def commit_def
          change_transformation_def)
qed

lemma record_failure_not_recorded:
  assumes "te_query_failed env \<noteq> None \<or> te_commit_failed env \<noteq> None
     \<or> find (\<lambda>t. t_task_id t = ta_task_id args) (transformations (ts_session st)) = None"
  shows "ts_db (record_failure env args e st) = ts_db st"
  using assms
  by (auto simp: record_failure_def Let_def change_transformation_def split: option.splits)

lemma task_failure:
  assumes "fst (start_task env args \<lparr>ts_db = d, ts_session = committed d, ts_emitted = []\<rparr>)
           = Inl e"
  shows "process_image_task env args d =
     (ResultFailed (str_exn e),
      emit_progress_update env (ta_task_id args) ''failed''
        (''Transformation failed: '' @ str_exn e) 0
        (record_failure env args e
           (snd (start_task env args \<lparr>ts_db = d, ts_session = committed d, ts_emitted = []\<rparr>))))"
  using assms
  by (cases "start_task env args \<lparr>ts_db = d, ts_session = committed d, ts_emitted = []\<rparr>")
     (simp add: process_image_task_def handle_failure_def Let_def)

text \<open>
  C2, as stated, fails: when the storage raises while the result is saved and the commit
  of the handler raises as well, the task finishes with the record still committed as
  processing and without an error message.
\<close>

theorem failure_not_recorded_when_database_down:
  "fst (start_task database_down_env (example_task_args ''job-1'' ''a woodblock print'')
          example_start) = Inl (PyExc ''OSError'' ''disk full'')
   \<and> fst (process_image_task database_down_env
            (example_task_args ''job-1'' ''a woodblock print'') example_db)
     = ResultFailed ''disk full''
   \<and> map (\<lambda>t. (t_task_id t, t_status t, t_error_message t))
       (transformations (committed (ts_db (snd (process_image_task database_down_env
          (example_task_args ''job-1'' ''a woodblock print'') example_db)))))
     = [(''job-1'', Processing, None), (''job-2'', Completed, None)]"
  by code_simp

text \<open>
  C2, amended. Take an execution whose body raises an exception \<open>e\<close>, and the state
  \<open>st\<close> in which it is raised. The task returns the failure with the message of \<open>e\<close>
  and hands to the socket one last notification with status \<open>failed\<close>, the message of
  \<open>e\<close> and percent 0 (emitted unless the socket raises). When the query and the commit
  of the handler go through and the record is found, the committed record has status
  failed, the message of \<open>e\<close> as its error message, and as its processing time the time
  since the start when a start time was recorded (otherwise its processing time is left
  as it was). When the query or the commit of the handler raises, or the record is not
  found, the error is only logged and the database is left as it was when \<open>e\<close> was
  raised.
\<close>

theorem task_failure_is_recorded:
  fixes env args d
  defines "st \<equiv> snd (start_task env args \<lparr>ts_db = d, ts_session = committed d, ts_emitted = []\<rparr>)"
  defines "final \<equiv> snd (process_image_task env args d)"
  assumes "fst (start_task env args \<lparr>ts_db = d, ts_session = committed d, ts_emitted = []\<rparr>)
           = Inl e"
  shows "fst (process_image_task env args d) = ResultFailed (str_exn e)
       \<and> ts_emitted final
           = ts_emitted st @ filter (\<lambda>n. te_socket env n = None)
               [\<lparr>n_task_id = ta_task_id args, n_status = ''failed'',
                 n_message = ''Transformation failed: '' @ str_exn e, n_progress = 0\<rparr>]
       \<and> (te_query_failed env = None \<and> te_commit_failed env = None
            \<and> find (\<lambda>t. t_task_id t = ta_task_id args) (transformations (ts_session st))
                = Some t \<longrightarrow>
            find (\<lambda>t. t_task_id t = ta_task_id args) (transformations (committed (ts_db final)))
              = Some (failed_with env e t)
            \<and> t_status (failed_with env e t) = Failed
            \<and> t_error_message (failed_with env e t) = Some (str_exn e)
            \<and> t_processing_time (failed_with env e t)
                = (case t_started_at t of
                     None \<Rightarrow> t_processing_time t
                   | Some start \<Rightarrow> Some (te_now_failed_time env - start)))
       \<and> (te_query_failed env \<noteq> None \<or> te_commit_failed env \<noteq> None
            \<or> find (\<lambda>t. t_task_id t = ta_task_id args) (transformations (ts_session st))
                = None \<longrightarrow>
            ts_db final = ts_db st)"
  using task_failure [OF assms(3)] record_failure_recorded [of env args st t e]
    record_failure_not_recorded [of env args st e]
  by (simp add: final_def st_def [symmetric] db_emit emitted_emit emitted_record_failure
        failed_with_fields)

theorem task_failure_is_recorded_witness:
  "fst (start_task storage_down_env (example_task_args ''job-1'' ''a woodblock print'')
          \<lparr>ts_db = example_db, ts_session = committed example_db, ts_emitted = []\<rparr>)
     = Inl (PyExc ''OSError'' ''disk full'')
   \<and> fst (process_image_task storage_down_env
            (example_task_args ''job-1'' ''a woodblock print'') example_db)
     = ResultFailed ''disk full''
   \<and> find (\<lambda>t. t_task_id t = ''job-1'')
       (transformations (committed (ts_db (snd (process_image_task storage_down_env
          (example_task_args ''job-1'' ''a woodblock print'') example_db)))))
     = Some (failed_with storage_down_env (PyExc ''OSError'' ''disk full'')
              (started storage_down_env (example_transformation ''job-1'' Pending)))
   \<and> map (\<lambda>t. (t_task_id t, t_status t, t_error_message t, t_processing_time t))
       (transformations (committed (ts_db (snd (process_image_task storage_down_env
          (example_task_args ''job-1'' ''a woodblock print'') example_db)))))
     = [(''job-1'', Failed, Some ''disk full'', Some 31), (''job-2'', Completed, None, None)]"
proof -
  let ?args = "example_task_args ''job-1'' ''a woodblock print''"
  let ?st0 = "\<lparr>ts_db = example_db, ts_session = committed example_db, ts_emitted = []\<rparr>"
  have h: "fst (start_task storage_down_env ?args ?st0) = Inl (PyExc ''OSError'' ''disk full'')"
    by code_simp
  have q: "te_query_failed storage_down_env = None" "te_commit_failed storage_down_env = None"
    by (simp_all add: storage_down_env_def quiet_task_env_def)
  have f: "find (\<lambda>t. t_task_id t = ta_task_id ?args)
             (transformations (ts_session (snd (start_task storage_down_env ?args ?st0))))
           = Some (started storage_down_env (example_transformation ''job-1'' Pending))"
    by code_simp
  have a: "ta_task_id ?args = ''job-1''"
    by (simp add: example_task_args_def)
  have m: "map (\<lambda>t. (t_task_id t, t_status t, t_error_message t, t_processing_time t))
       (transformations (committed (ts_db (snd (process_image_task storage_down_env ?args
          example_db)))))
     = [(''job-1'', Failed, Some ''disk full'', Some 31), (''job-2'', Completed, None, None)]"
    by code_simp
  show ?thesis
    using task_failure_is_recorded [OF h,
        of "started storage_down_env (example_transformation ''job-1'' Pending)"]
      h q f a m
    by simp
qed

subsection \<open>The status of a record over a sequence of operations\<close>















lemma status_step_refl: "status_step a a"
  by (cases a) simp_all

lemma steps_ok_refl: "steps_ok xs xs"
  by (simp add: steps_ok_def list_all2_same status_step_refl)


























section \<open>Properties of the generation adapter\<close>














end
